theory Spec2Isabelle
  imports Main "HOL-Library.AList"
begin

section \<open>Errors\<close>

text \<open>
  The Python exceptions the modelled code can raise, each carrying its message.
  \<open>get_creator\<close> raises \<open>ValueError\<close> (the specification calls it
  ConfigurationError); a failed lookup in \<open>dataarray.sizes\<close> raises \<open>KeyError\<close>;
  the array backend raises \<open>ValueError\<close> when a value cannot be broadcast;
  the labelled-array backend raises its \<open>MissingDimensionsError\<close>, a subclass of
  \<open>ValueError\<close>, or a \<open>ValueError\<close> when it refuses a coordinate; reading \<open>dims\<close>
  of a type that has none raises \<open>AttributeError\<close>; the \<open>dataclass\<close> decorator
  and a callable given arguments it does not accept raise \<open>TypeError\<close>.
\<close>

datatype error =
    ValueError string
  | KeyError string
  | TypeError string
  | AttributeError string
  | MissingDimensionsError string

fun is_ValueError :: "error \<Rightarrow> bool" where
  "is_ValueError (ValueError _) = True"
| "is_ValueError (MissingDimensionsError _) = True"
| "is_ValueError _ = False"

fun is_KeyError :: "error \<Rightarrow> bool" where
  "is_KeyError (KeyError _) = True"
| "is_KeyError _ = False"

section \<open>The array backend\<close>

text \<open>
  A numpy array: its shape and its elements in row-major order.
  A raw field value is a scalar or an array.
\<close>

record 'v ndarray =
  shape :: "nat list"
  elems :: "'v list"

datatype 'v raw = Scalar 'v | Array "'v ndarray"

text \<open>
  numpy's rule for copying a value into an array: while the value has more axes than
  the target, leading axes of length 1 are stripped; then the value's shape is aligned
  with the target's trailing axes, and each of its axes has the target's length or
  length 1.
\<close>

fun strip_leading_ones :: "nat \<Rightarrow> nat list \<Rightarrow> nat list" where
  "strip_leading_ones r [] = []"
| "strip_leading_ones r (m # ms) =
     (if r < length (m # ms) \<and> m = 1 then strip_leading_ones r ms else m # ms)"

definition broadcastable :: "nat list \<Rightarrow> nat list \<Rightarrow> bool" where
  "broadcastable vs ts \<longleftrightarrow>
     (let vs' = strip_leading_ones (length ts) vs
      in length vs' \<le> length ts \<and>
         list_all2 (\<lambda>m n. m = n \<or> m = 1) vs' (drop (length ts - length vs') ts))"

fun broadcast_elems :: "nat list \<Rightarrow> nat list \<Rightarrow> 'v list \<Rightarrow> 'v list" where
  "broadcast_elems [] vs xs = xs"
| "broadcast_elems (n # ts) vs xs =
     (if length vs \<le> length ts then concat (replicate n (broadcast_elems ts vs xs))
      else (case vs of
              [] \<Rightarrow> xs
            | m # ms \<Rightarrow>
                if m = n
                then concat (map (\<lambda>i. broadcast_elems ts ms
                                         (take (prod_list ms) (drop (i * prod_list ms) xs)))
                                 [0..<n])
                else concat (replicate n (broadcast_elems ts ms xs))))"

text \<open>\<open>np.full(shape, value)\<close>: a new array of the given shape filled with the value.\<close>

definition np_full :: "nat list \<Rightarrow> 'v raw \<Rightarrow> error + 'v ndarray" where
  "np_full shp value =
     (case value of
        Scalar v \<Rightarrow> Inr \<lparr>shape = shp, elems = replicate (prod_list shp) v\<rparr>
      | Array a \<Rightarrow>
          if broadcastable (shape a) shp
          then Inr \<lparr>shape = shp,
                    elems = broadcast_elems shp (strip_leading_ones (length shp) (shape a))
                              (elems a)\<rparr>
          else Inl (ValueError ''could not broadcast input array''))"

section \<open>Labelled arrays\<close>

text \<open>
  Modelled from the spec: the type \<open>DataArray[dims, dtype]\<close> of typing.py, which is
  not among the source files. Calling it "wraps the raw result into a shape/dtype-tagged
  array of dims/dtype", the element type being "cast on construction"; the axis order of
  the result equals \<open>dims\<close>, so the raw array must have one axis per name. The element
  cast of the backend is the parameter \<open>astype\<close>; an unspecified dtype casts nothing.
  A freshly built array carries no coordinates.
\<close>

record ('d, 'v) variable =
  var_dims :: "string list"
  var_dtype :: "'d option"
  var_data :: "'v ndarray"

record ('d, 'v) dataarray =
  var :: "('d, 'v) variable"
  coords :: "(string \<times> string list \<times> ('d, 'v) variable) list"

definition cast :: "('d \<Rightarrow> 'v \<Rightarrow> 'v) \<Rightarrow> 'd option \<Rightarrow> 'v \<Rightarrow> 'v" where
  "cast astype dt v = (case dt of None \<Rightarrow> v | Some d \<Rightarrow> astype d v)"

definition TypedArray ::
  "('d \<Rightarrow> 'v \<Rightarrow> 'v) \<Rightarrow> string list \<Rightarrow> 'd option \<Rightarrow> 'v ndarray \<Rightarrow> error + ('d, 'v) dataarray" where
  "TypedArray astype dims dt a =
     (if length (shape a) \<noteq> length dims
      then Inl (ValueError ''different number of dimensions on data and dims'')
      else Inr \<lparr>var = \<lparr>var_dims = dims, var_dtype = dt,
                        var_data = \<lparr>shape = shape a, elems = map (cast astype dt) (elems a)\<rparr>\<rparr>,
                coords = []\<rparr>)"

text \<open>\<open>dataarray.sizes\<close>: the table from axis names to axis lengths.\<close>

definition sizes :: "('d, 'v) dataarray \<Rightarrow> (string \<times> nat) list" where
  "sizes da = zip (var_dims (var da)) (shape (var_data (var da)))"

section \<open>get_creator\<close>

text \<open>
  What an annotation can be, as far as \<open>to_dataarray\<close> tells annotations apart:
  an object that is not a class, a class that is not a subclass of \<open>DataArray\<close>,
  or a class \<open>DataArray[dims, dtype]\<close>. In a signature or an annotation table
  \<open>None\<close> stands for the class \<open>Parameter.empty\<close>.
\<close>

datatype 'd ftype =
    NotAClass
  | OtherClass
  | DataArrayClass "string list" "'d option"

text \<open>A parameter of a reflected signature.\<close>

datatype kind =
  POSITIONAL_ONLY | POSITIONAL_OR_KEYWORD | VAR_POSITIONAL | KEYWORD_ONLY | VAR_KEYWORD

record ('d, 'v) parameter =
  par_name :: string
  par_annotation :: "'d ftype option"
  par_kind :: kind
  par_default :: "'v raw option"

type_synonym 'v kwargs = "(string \<times> 'v raw) list"

text \<open>
  A callable: its signature and what a call with positional and keyword arguments
  returns. The base callable returns a raw array, a Creator a labelled array.
\<close>

record ('d, 'v, 'r) callable =
  parameters :: "('d, 'v) parameter list"
  call :: "'v raw list \<Rightarrow> 'v kwargs \<Rightarrow> error + 'r"

text \<open>The loop of \<open>get_creator\<close> over the parameters, with its three checks in order.\<close>

fun check_parameters :: "('d, 'v) parameter list \<Rightarrow> error + unit" where
  "check_parameters [] = Inr ()"
| "check_parameters (par # pars) =
     (if par_annotation par = None
      then Inl (ValueError ''Type hint must be specified for all args.'')
      else if par_kind par = VAR_POSITIONAL
      then Inl (ValueError ''Variadic positional args cannot be used.'')
      else if par_kind par = VAR_KEYWORD
      then Inl (ValueError ''Variadic keyword args cannot be used.'')
      else check_parameters pars)"

text \<open>
  The body of the wrapper: every key of a snapshot of the keyword arguments that is
  not a parameter name is popped, then the base callable is called and its result
  wrapped.
\<close>

definition pop :: "string \<Rightarrow> 'v kwargs \<Rightarrow> 'v kwargs" where
  "pop key kw = AList.delete key kw"

fun pop_unknown :: "string list \<Rightarrow> string list \<Rightarrow> 'v kwargs \<Rightarrow> 'v kwargs" where
  "pop_unknown names [] kw = kw"
| "pop_unknown names (key # keys) kw =
     (if key \<notin> set names then pop_unknown names keys (pop key kw)
      else pop_unknown names keys kw)"

definition wrapper ::
  "('d \<Rightarrow> 'v \<Rightarrow> 'v) \<Rightarrow> ('d, 'v, 'v ndarray) callable \<Rightarrow> string list \<Rightarrow> 'd option \<Rightarrow>
   'v raw list \<Rightarrow> 'v kwargs \<Rightarrow> error + ('d, 'v) dataarray" where
  "wrapper astype creator dims dt args kw =
     (let kw' = pop_unknown (map par_name (parameters creator)) (map fst kw) kw
      in case call creator args kw' of
           Inl e \<Rightarrow> Inl e
         | Inr a \<Rightarrow> TypedArray astype dims dt a)"

text \<open>
  Modelled from the spec: the decorator \<open>copy_wraps\<close> of utils.py, which is not among
  the source files. The wrapper it decorates "exposes the same default values and
  parameter names as \<open>base_callable\<close>": its reflected signature is the base callable's.
\<close>

definition copy_wraps ::
  "('d, 'v, 'r) callable \<Rightarrow> ('v raw list \<Rightarrow> 'v kwargs \<Rightarrow> error + 'q) \<Rightarrow> ('d, 'v, 'q) callable" where
  "copy_wraps wrapped f = \<lparr>parameters = parameters wrapped, call = f\<rparr>"

definition get_creator ::
  "('d \<Rightarrow> 'v \<Rightarrow> 'v) \<Rightarrow> ('d, 'v, 'v ndarray) callable \<Rightarrow> string list \<Rightarrow> 'd option \<Rightarrow>
   error + ('d, 'v, ('d, 'v) dataarray) callable" where
  "get_creator astype creator dims dt =
     (case check_parameters (parameters creator) of
        Inl e \<Rightarrow> Inl e
      | Inr _ \<Rightarrow> Inr (copy_wraps creator (wrapper astype creator dims dt)))"

section \<open>to_dataarray\<close>

text \<open>
  A dataclass field, a DataArray class (the attributes the protocol
  \<open>DataArrayClass\<close> names) and an instance of one: its class and the value of each
  attribute.
\<close>

record ('d, 'v) field =
  field_name :: string
  field_type :: "'d ftype option"
  field_default :: "'v raw option"

record ('d, 'v) DataArrayClass =
  dataclass_fields :: "('d, 'v) field list"
  dataarray_creator :: "('d, 'v, ('d, 'v) dataarray) callable"

record ('d, 'v) inst =
  class_of :: "('d, 'v) DataArrayClass"
  getattr :: "string \<Rightarrow> 'v raw"

definition asdict :: "('d, 'v) inst \<Rightarrow> 'v kwargs" where
  "asdict i = map (\<lambda>f. (field_name f, getattr i (field_name f))) (dataclass_fields (class_of i))"

text \<open>\<open>isinstance(field.type, type)\<close> and \<open>issubclass(field.type, DataArray)\<close>.\<close>

fun is_class :: "'d ftype option \<Rightarrow> bool" where
  "is_class (Some NotAClass) = False"
| "is_class _ = True"

fun is_DataArray_subclass :: "'d ftype option \<Rightarrow> bool" where
  "is_DataArray_subclass (Some (DataArrayClass _ _)) = True"
| "is_DataArray_subclass _ = False"

text \<open>
  \<open>tuple(dataarray.sizes[dim] for dim in dims)\<close>: the first name that is not an axis
  raises \<open>KeyError\<close>.
\<close>

fun lookup_sizes :: "(string \<times> nat) list \<Rightarrow> string list \<Rightarrow> error + nat list" where
  "lookup_sizes sz [] = Inr []"
| "lookup_sizes sz (dim # dims) =
     (case map_of sz dim of
        None \<Rightarrow> Inl (KeyError dim)
      | Some n \<Rightarrow>
          (case lookup_sizes sz dims of
             Inl e \<Rightarrow> Inl e
           | Inr ns \<Rightarrow> Inr (n # ns)))"

text \<open>
  The backend's assignment \<open>dataarray.coords[name] = dims, array\<close>. It refuses, with
  \<open>MissingDimensionsError\<close>, a coordinate named like one of its own dimensions unless
  that is its only dimension, and, with \<open>ValueError\<close>, a coordinate without dimensions
  named like a dimension of the array; otherwise the entry of that name in the
  coordinate table is set.
\<close>

definition coords_setitem ::
  "('d, 'v) dataarray \<Rightarrow> string \<Rightarrow> string list \<times> ('d, 'v) variable \<Rightarrow>
   error + ('d, 'v) dataarray" where
  "coords_setitem da name entry =
     (if name \<in> set (fst entry) \<and> length (fst entry) \<noteq> 1
      then Inl (MissingDimensionsError name)
      else if fst entry = [] \<and> name \<in> set (var_dims (var da))
      then Inl (ValueError ''dimension already exists as a scalar variable'')
      else Inr (da\<lparr>coords := AList.update name entry (coords da)\<rparr>))"

text \<open>
  \<open>set_coord\<close> changes the array in place; the model returns the changed array.
\<close>

definition set_coord ::
  "('d \<Rightarrow> 'v \<Rightarrow> 'v) \<Rightarrow> ('d, 'v) dataarray \<Rightarrow> ('d, 'v) field \<Rightarrow> 'v raw \<Rightarrow> error + ('d, 'v) dataarray" where
  "set_coord astype da fld value =
     (case field_type fld of
        Some (DataArrayClass dims dt) \<Rightarrow>
          (case lookup_sizes (sizes da) dims of
             Inl e \<Rightarrow> Inl e
           | Inr shp \<Rightarrow>
               (case np_full shp value of
                  Inl e \<Rightarrow> Inl e
                | Inr a \<Rightarrow>
                    (case TypedArray astype dims dt a of
                       Inl e \<Rightarrow> Inl e
                     | Inr c \<Rightarrow> coords_setitem da (field_name fld) (dims, var c))))
      | _ \<Rightarrow> Inl (AttributeError ''dims''))"

text \<open>The loop of \<open>to_dataarray\<close> over the fields, from the array built so far.\<close>

fun set_coords ::
  "('d \<Rightarrow> 'v \<Rightarrow> 'v) \<Rightarrow> ('d, 'v) inst \<Rightarrow> ('d, 'v) dataarray \<Rightarrow> ('d, 'v) field list \<Rightarrow>
   error + ('d, 'v) dataarray" where
  "set_coords astype i da [] = Inr da"
| "set_coords astype i da (fld # flds) =
     (if \<not> is_class (field_type fld) then set_coords astype i da flds
      else if \<not> is_DataArray_subclass (field_type fld) then set_coords astype i da flds
      else (case set_coord astype da fld (getattr i (field_name fld)) of
              Inl e \<Rightarrow> Inl e
            | Inr da' \<Rightarrow> set_coords astype i da' flds))"

definition to_dataarray :: "('d \<Rightarrow> 'v \<Rightarrow> 'v) \<Rightarrow> ('d, 'v) inst \<Rightarrow> error + ('d, 'v) dataarray" where
  "to_dataarray astype i =
     (case call (dataarray_creator (class_of i)) [] (asdict i) of
        Inl e \<Rightarrow> Inl e
      | Inr da \<Rightarrow> set_coords astype i da (dataclass_fields (class_of i)))"

text \<open>The fields \<open>to_dataarray\<close> turns into coordinates.\<close>

definition coordinate_fields :: "('d, 'v) field list \<Rightarrow> ('d, 'v) field list" where
  "coordinate_fields flds =
     filter (\<lambda>f. is_class (field_type f) \<and> is_DataArray_subclass (field_type f)) flds"

section \<open>dataarrayclass\<close>

text \<open>
  A class before the decorator has run: its \<open>__annotations__\<close> and its attributes,
  both dictionaries in insertion order.
\<close>

record ('d, 'v) pyclass =
  annotations :: "(string \<times> 'd ftype option) list"
  attributes :: "(string \<times> 'v raw) list"

text \<open>\<open>{**a, **b}\<close>: the keys of \<open>a\<close>, then the new keys of \<open>b\<close>; the later value wins.\<close>

definition dict_merge :: "('k \<times> 'a) list \<Rightarrow> ('k \<times> 'a) list \<Rightarrow> ('k \<times> 'a) list" where
  "dict_merge a b = foldl (\<lambda>d (k, v). AList.update k v d) a b"

fun split_annotations ::
  "('d, 'v) parameter list \<Rightarrow>
   (string \<times> 'd ftype option) list \<times> (string \<times> 'd ftype option) list \<Rightarrow>
   (string \<times> 'd ftype option) list \<times> (string \<times> 'd ftype option) list" where
  "split_annotations [] (leading, trailing) = (leading, trailing)"
| "split_annotations (par # pars) (leading, trailing) =
     (if par_kind par = KEYWORD_ONLY
      then split_annotations pars
             (leading, AList.update (par_name par) (par_annotation par) trailing)
      else split_annotations pars
             (AList.update (par_name par) (par_annotation par) leading, trailing))"

definition update_annotations ::
  "('d, 'v) pyclass \<Rightarrow> ('d, 'v, 'r) callable \<Rightarrow> ('d, 'v) pyclass" where
  "update_annotations cls based_on =
     (case split_annotations (parameters based_on) ([], []) of
        (leading, trailing) \<Rightarrow>
          cls\<lparr>annotations := dict_merge (dict_merge leading (annotations cls)) trailing\<rparr>)"

text \<open>
  The truth value of \<open>par.default == par.empty\<close>, where \<open>None\<close> stands for
  \<open>par.empty\<close>. An array compares element by element, and taking the truth value of
  an array of more than one element raises \<open>ValueError\<close>. \<open>update_defaults\<close> sets
  the class attribute when the comparison is false.
\<close>

fun default_is_empty :: "'v raw option \<Rightarrow> error + bool" where
  "default_is_empty None = Inr True"
| "default_is_empty (Some (Scalar v)) = Inr False"
| "default_is_empty (Some (Array a)) =
     (if 1 < prod_list (shape a)
      then Inl (ValueError ''The truth value of an array with more than one element is ambiguous'')
      else Inr False)"

fun set_defaults ::
  "('d, 'v) parameter list \<Rightarrow> ('d, 'v) pyclass \<Rightarrow> error + ('d, 'v) pyclass" where
  "set_defaults [] cls = Inr cls"
| "set_defaults (par # pars) cls =
     (case default_is_empty (par_default par) of
        Inl e \<Rightarrow> Inl e
      | Inr is_empty \<Rightarrow>
          if \<not> is_empty
          then (case par_default par of
                  None \<Rightarrow> set_defaults pars cls
                | Some d \<Rightarrow>
                    set_defaults pars
                      (cls\<lparr>attributes := AList.update (par_name par) d (attributes cls)\<rparr>))
          else set_defaults pars cls)"

definition update_defaults ::
  "('d, 'v) pyclass \<Rightarrow> ('d, 'v, 'r) callable \<Rightarrow> error + ('d, 'v) pyclass" where
  "update_defaults cls based_on = set_defaults (parameters based_on) cls"

text \<open>
  The standard library's \<open>dataclass\<close>, as far as the fields go: one field per
  annotation, in order, its default the class attribute of that name; a field without
  a default after one with a default is refused.
\<close>

definition make_fields :: "('d, 'v) pyclass \<Rightarrow> ('d, 'v) field list" where
  "make_fields cls =
     map (\<lambda>(n, t). \<lparr>field_name = n, field_type = t, field_default = map_of (attributes cls) n\<rparr>)
         (annotations cls)"

fun defaults_ordered :: "('d, 'v) field list \<Rightarrow> bool" where
  "defaults_ordered [] = True"
| "defaults_ordered (f # fs) =
     (if field_default f = None then defaults_ordered fs
      else list_all (\<lambda>g. field_default g \<noteq> None) fs)"

definition dataclass :: "('d, 'v) pyclass \<Rightarrow> error + ('d, 'v) field list" where
  "dataclass cls =
     (if defaults_ordered (make_fields cls) then Inr (make_fields cls)
      else Inl (TypeError ''non-default argument follows default argument''))"

definition dataarrayclass ::
  "('d \<Rightarrow> 'v \<Rightarrow> 'v) \<Rightarrow> string list \<Rightarrow> 'd option \<Rightarrow> ('d, 'v, 'v ndarray) callable \<Rightarrow>
   ('d, 'v) pyclass \<Rightarrow> error + ('d, 'v) DataArrayClass" where
  "dataarrayclass astype dims dt creator cls =
     (case get_creator astype creator dims dt of
        Inl e \<Rightarrow> Inl e
      | Inr dataarray_creator' \<Rightarrow>
          (case update_defaults (update_annotations cls dataarray_creator')
                                dataarray_creator' of
             Inl e \<Rightarrow> Inl e
           | Inr cls' \<Rightarrow>
               (case dataclass cls' of
                  Inl e \<Rightarrow> Inl e
                | Inr flds \<Rightarrow>
                    Inr \<lparr>dataclass_fields = flds, dataarray_creator = dataarray_creator'\<rparr>)))"

section \<open>asdataarray\<close>

text \<open>
  An instance as \<open>asdataarray\<close> sees it: its attribute \<open>__dataarray_factory__\<close>
  (\<open>None\<close> when the lookup raises \<open>AttributeError\<close>) and the keyword arguments it
  was built from. The conversion \<open>parse(inst).to_dataarray(dataarray_factory=...)\<close>
  of parser.py, which is not among the source files, is the parameter
  \<open>parse_to_dataarray\<close>.
\<close>

record ('f, 'v) dataobj =
  obj_dataarray_factory :: "'f option"
  obj_values :: "'v kwargs"

definition asdataarray ::
  "(('f, 'v) dataobj \<Rightarrow> 'f \<Rightarrow> 'r) \<Rightarrow> ('f, 'v) dataobj \<Rightarrow> 'f \<Rightarrow> 'r" where
  "asdataarray parse_to_dataarray i dataarray_factory =
     (let dataarray_factory' =
            (case obj_dataarray_factory i of
               Some f \<Rightarrow> f
             | None \<Rightarrow> dataarray_factory)
      in parse_to_dataarray i dataarray_factory')"

section \<open>classify\<close>

text \<open>
  Modelled from the spec: \<open>classify\<close>, whose code (\<open>parse\<close> of parser.py) is not among
  the source files. A field descriptor has a name, a declared type, \<open>Plain\<close> or
  \<open>Coordinate\<close>, and a default or none. "The first field is treated as the candidate
  primary unless annotated as a Coordinate, in which case classification fails with a
  ConfigurationError"; "coordinates is every remaining descriptor whose type tag is
  Coordinate; passthrough is every remaining descriptor that is neither primary nor
  coordinate", both in declaration order. The list "must contain at least one field":
  for the empty list no primary field can be determined either.
\<close>

datatype spec_error = ConfigurationError string | ShapeError string

datatype ('t, 'd) declared_type = Plain 't | Coordinate "string list" "'d option"

record ('t, 'd, 'v) field_descriptor =
  fd_name :: string
  fd_declared_type :: "('t, 'd) declared_type"
  fd_default :: "'v option"

fun is_Coordinate :: "('t, 'd) declared_type \<Rightarrow> bool" where
  "is_Coordinate (Coordinate _ _) = True"
| "is_Coordinate (Plain _) = False"

fun classify ::
  "('t, 'd, 'v) field_descriptor list \<Rightarrow>
   spec_error + (('t, 'd, 'v) field_descriptor \<times> ('t, 'd, 'v) field_descriptor list
                 \<times> ('t, 'd, 'v) field_descriptor list)" where
  "classify [] = Inl (ConfigurationError ''no primary data field could be determined'')"
| "classify (f # fs) =
     (if is_Coordinate (fd_declared_type f)
      then Inl (ConfigurationError ''no primary data field could be determined'')
      else Inr (f,
                filter (\<lambda>g. is_Coordinate (fd_declared_type g)) fs,
                filter (\<lambda>g. \<not> is_Coordinate (fd_declared_type g)) fs))"

section \<open>When set_coord raises\<close>

text \<open>
  Two conditions under which \<open>set_coord\<close> raises for a coordinate field before the
  backend is asked to store the coordinate: a name in its \<open>dims\<close> is not a key of
  \<open>dataarray.sizes\<close>, or every name is and the value is an array that cannot be
  broadcast to the shape looked up.
\<close>

definition unknown_dim :: "('d, 'v) dataarray \<Rightarrow> ('d, 'v) field \<Rightarrow> bool" where
  "unknown_dim da f \<longleftrightarrow>
     (case field_type f of
        Some (DataArrayClass cdims cdt) \<Rightarrow> \<not> set cdims \<subseteq> fst ` set (sizes da)
      | _ \<Rightarrow> False)"

definition not_broadcastable :: "('d, 'v) dataarray \<Rightarrow> ('d, 'v) field \<Rightarrow> 'v raw \<Rightarrow> bool" where
  "not_broadcastable da f value \<longleftrightarrow>
     (case field_type f of
        Some (DataArrayClass cdims cdt) \<Rightarrow>
          (case lookup_sizes (sizes da) cdims of
             Inl _ \<Rightarrow> False
           | Inr shp \<Rightarrow>
               (case value of
                  Scalar _ \<Rightarrow> False
                | Array a \<Rightarrow> \<not> broadcastable (shape a) shp))
      | _ \<Rightarrow> False)"

section \<open>Example inputs\<close>

text \<open>
  A backend without element conversion, a base callable with one typed parameter that
  refuses every keyword it does not know, and the same callable with its type hint
  removed.
\<close>

definition no_cast :: "nat \<Rightarrow> int \<Rightarrow> int" where
  "no_cast d v = v"

definition example_new :: "(nat, int, int ndarray) callable" where
  "example_new =
     \<lparr>parameters =
        [\<lparr>par_name = ''data'', par_annotation = Some OtherClass,
          par_kind = POSITIONAL_OR_KEYWORD, par_default = None\<rparr>],
      call = (\<lambda>args kw.
        if args = [] \<and> map fst kw = [''data'']
        then (case snd (hd kw) of
                Array a \<Rightarrow> Inr a
              | Scalar v \<Rightarrow> Inr \<lparr>shape = [], elems = [v]\<rparr>)
        else Inl (TypeError ''unexpected arguments''))\<rparr>"

definition example_untyped :: "(nat, int, int ndarray) callable" where
  "example_untyped =
     \<lparr>parameters =
        [\<lparr>par_name = ''data'', par_annotation = None,
          par_kind = POSITIONAL_OR_KEYWORD, par_default = None\<rparr>],
      call = call example_new\<rparr>"

text \<open>
  A class with the data field and one coordinate field \<open>c1\<close> of the given dims, built
  on the Creator of \<open>example_new\<close> with dims \<open>("x", "y")\<close>; an instance of it whose data
  is an array of shape \<open>(2, 3)\<close>; and the primary array its Creator returns.
\<close>

definition example_creator :: "(nat, int, (nat, int) dataarray) callable" where
  "example_creator = copy_wraps example_new (wrapper no_cast example_new [''x'', ''y''] None)"

definition example_class :: "string list \<Rightarrow> (nat, int) DataArrayClass" where
  "example_class cdims =
     \<lparr>dataclass_fields =
        [\<lparr>field_name = ''data'', field_type = Some OtherClass, field_default = None\<rparr>,
         \<lparr>field_name = ''c1'', field_type = Some (DataArrayClass cdims None),
          field_default = None\<rparr>],
      dataarray_creator = example_creator\<rparr>"

definition example_inst :: "string list \<Rightarrow> int raw \<Rightarrow> int raw \<Rightarrow> (nat, int) inst" where
  "example_inst cdims c1 other =
     \<lparr>class_of = example_class cdims,
      getattr = (\<lambda>n. if n = ''data'' then Array \<lparr>shape = [2, 3], elems = [1, 2, 3, 4, 5, 6]\<rparr>
                     else if n = ''c1'' then c1 else other)\<rparr>"

definition example_primary :: "(nat, int) dataarray" where
  "example_primary =
     \<lparr>var = \<lparr>var_dims = [''x'', ''y''], var_dtype = None,
              var_data = \<lparr>shape = [2, 3], elems = [1, 2, 3, 4, 5, 6]\<rparr>\<rparr>,
      coords = []\<rparr>"

text \<open>
  An instance whose coordinate field is named like the dimension \<open>x\<close> and has the dims
  \<open>("x", "y")\<close>.
\<close>

definition example_dim_inst :: "(nat, int) inst" where
  "example_dim_inst =
     \<lparr>class_of =
        \<lparr>dataclass_fields =
           [\<lparr>field_name = ''data'', field_type = Some OtherClass, field_default = None\<rparr>,
            \<lparr>field_name = ''x'', field_type = Some (DataArrayClass [''x'', ''y''] None),
             field_default = None\<rparr>],
         dataarray_creator = example_creator\<rparr>,
      getattr = (\<lambda>n. if n = ''data'' then Array \<lparr>shape = [2, 3], elems = [1, 2, 3, 4, 5, 6]\<rparr>
                     else Scalar 5)\<rparr>"



text \<open>
  A base callable with a keyword-only parameter that has a default, and a class body
  declaring one coordinate field with a default of its own.
\<close>

definition example_named :: "(nat, int, int ndarray) callable" where
  "example_named =
     \<lparr>parameters =
        [\<lparr>par_name = ''data'', par_annotation = Some OtherClass,
          par_kind = POSITIONAL_OR_KEYWORD, par_default = None\<rparr>,
         \<lparr>par_name = ''name'', par_annotation = Some OtherClass,
          par_kind = KEYWORD_ONLY, par_default = Some (Scalar 0)\<rparr>],
      call = call example_new\<rparr>"

definition example_pyclass :: "(nat, int) pyclass" where
  "example_pyclass =
     \<lparr>annotations = [(''c1'', Some (DataArrayClass [''x''] None))],
      attributes = [(''c1'', Scalar 1)]\<rparr>"

text \<open>The same base callable with an array of two elements as the default.\<close>

definition example_array_default :: "(nat, int, int ndarray) callable" where
  "example_array_default =
     \<lparr>parameters =
        [\<lparr>par_name = ''data'', par_annotation = Some OtherClass,
          par_kind = POSITIONAL_OR_KEYWORD, par_default = None\<rparr>,
         \<lparr>par_name = ''name'', par_annotation = Some OtherClass,
          par_kind = KEYWORD_ONLY, par_default = Some (Array \<lparr>shape = [2], elems = [0, 0]\<rparr>)\<rparr>],
      call = call example_new\<rparr>"

text \<open>Two field descriptors: a plain data field and a coordinate.\<close>

definition example_fd_data :: "(string, nat, int) field_descriptor" where
  "example_fd_data = \<lparr>fd_name = ''data'', fd_declared_type = Plain ''ndarray'', fd_default = None\<rparr>"

definition example_fd_coord :: "(string, nat, int) field_descriptor" where
  "example_fd_coord =
     \<lparr>fd_name = ''c1'', fd_declared_type = Coordinate [''x''] None, fd_default = Some 0\<rparr>"

text \<open>
  A conversion that returns the factory it was given with the array stored under
  \<open>data\<close>.
\<close>

definition example_conversion :: "(string, int) dataobj \<Rightarrow> string \<Rightarrow> error + (string \<times> int ndarray)" where
  "example_conversion i factory =
     (case map_of (obj_values i) ''data'' of
        Some (Array a) \<Rightarrow> Inr (factory, a)
      | _ \<Rightarrow> Inl (TypeError ''data''))"

section \<open>Properties of get_creator\<close>

lemma pop_unknown_filter:
  "pop_unknown names keys kw = filter (\<lambda>(k, v). k \<in> set names \<or> k \<notin> set keys) kw"
proof (induction keys arbitrary: kw)
  case Nil
  then show ?case by simp
next
  case (Cons key keys)
  show ?case
    by (auto simp: Cons.IH pop_def AList.delete_eq intro!: filter_cong)
qed

lemma pop_unknown_snapshot:
  "pop_unknown names (map fst kw) kw = filter (\<lambda>(k, v). k \<in> set names) kw"
  unfolding pop_unknown_filter by (rule filter_cong) force+

lemma check_parameters_ok:
  "check_parameters pars = Inr () \<longleftrightarrow>
     (\<forall>p \<in> set pars. par_annotation p \<noteq> None \<and> par_kind p \<noteq> VAR_POSITIONAL \<and> par_kind p \<noteq> VAR_KEYWORD)"
  by (induction pars) auto

lemma check_parameters_error:
  "check_parameters pars = Inl e \<Longrightarrow> \<exists>msg. e = ValueError msg"
  by (induction pars) (auto split: if_splits)

lemma wrapper_known_keys:
  "wrapper astype creator dims dt args kw =
     (case call creator args (filter (\<lambda>(k, v). k \<in> set (map par_name (parameters creator))) kw) of
        Inl e \<Rightarrow> Inl e
      | Inr a \<Rightarrow> TypedArray astype dims dt a)"
  unfolding wrapper_def Let_def pop_unknown_snapshot ..

lemma get_creator_ok:
  "check_parameters (parameters creator) = Inr () \<Longrightarrow>
   get_creator astype creator dims dt = Inr (copy_wraps creator (wrapper astype creator dims dt))"
  by (simp add: get_creator_def)

text \<open>
  Claim C1. When every parameter of the base callable is typed and none is variadic,
  \<open>get_creator\<close> returns a Creator, and a call of it with any keyword arguments gives
  what the call with only the keys that are parameter names gives: the base callable is
  called with exactly those keys and its result wrapped, so an unknown key is dropped
  and never the cause of an error.
\<close>

theorem creator_drops_unknown_keys:
  assumes "\<forall>p \<in> set (parameters creator).
             par_annotation p \<noteq> None \<and> par_kind p \<noteq> VAR_POSITIONAL \<and> par_kind p \<noteq> VAR_KEYWORD"
  shows "\<exists>cr. get_creator astype creator dims dt = Inr cr \<and>
           (\<forall>args kw.
              call cr args kw =
                call cr args (filter (\<lambda>(k, v). k \<in> set (map par_name (parameters creator))) kw) \<and>
              call cr args kw =
                (case call creator args
                        (filter (\<lambda>(k, v). k \<in> set (map par_name (parameters creator))) kw) of
                   Inl e \<Rightarrow> Inl e
                 | Inr a \<Rightarrow> TypedArray astype dims dt a))"
proof -
  from assms have ok: "check_parameters (parameters creator) = Inr ()"
    by (simp add: check_parameters_ok)
  let ?cr = "copy_wraps creator (wrapper astype creator dims dt)"
  have "get_creator astype creator dims dt = Inr ?cr"
    using ok by (rule get_creator_ok)
  moreover have "call ?cr = wrapper astype creator dims dt"
    by (simp add: copy_wraps_def)
  ultimately show ?thesis
    by (simp add: wrapper_known_keys)
qed

text \<open>
  The base callable \<open>example_new\<close> alone refuses the keyword \<open>name\<close>; its Creator
  accepts it and returns the array the call without it returns.
\<close>

theorem creator_drops_unknown_keys_witness:
  "\<exists>cr. get_creator no_cast example_new [''x''] None = Inr cr \<and>
        call cr [] [(''data'', Array \<lparr>shape = [2], elems = [1, 2]\<rparr>), (''name'', Scalar 3)] =
        call cr [] [(''data'', Array \<lparr>shape = [2], elems = [1, 2]\<rparr>)] \<and>
        call cr [] [(''data'', Array \<lparr>shape = [2], elems = [1, 2]\<rparr>), (''name'', Scalar 3)] =
        Inr \<lparr>var = \<lparr>var_dims = [''x''], var_dtype = None,
                     var_data = \<lparr>shape = [2], elems = [1, 2]\<rparr>\<rparr>, coords = []\<rparr>"
proof -
  have typed: "\<forall>p \<in> set (parameters example_new).
      par_annotation p \<noteq> None \<and> par_kind p \<noteq> VAR_POSITIONAL \<and> par_kind p \<noteq> VAR_KEYWORD"
    by (simp add: example_new_def)
  from creator_drops_unknown_keys [OF typed, of no_cast "[''x'']" None]
  obtain cr where cr: "get_creator no_cast example_new [''x''] None = Inr cr"
    and eq: "\<And>args kw. call cr args kw =
                (case call example_new args
                        (filter (\<lambda>(k, v). k \<in> set (map par_name (parameters example_new))) kw) of
                   Inl e \<Rightarrow> Inl e
                 | Inr a \<Rightarrow> TypedArray no_cast [''x''] None a)"
    by blast
  show ?thesis
  proof (intro exI [of _ cr] conjI)
    show "get_creator no_cast example_new [''x''] None = Inr cr" by (rule cr)
  qed (simp_all add: eq example_new_def TypedArray_def cast_def)
qed

text \<open>
  Claim C2. \<open>get_creator\<close> fails, with the \<open>ValueError\<close> that the specification names
  ConfigurationError, when some parameter of the base callable has no type hint or is a
  variadic positional or a variadic keyword parameter; otherwise it returns a Creator.
\<close>

theorem get_creator_checks_parameters:
  "((\<exists>p \<in> set (parameters creator).
       par_annotation p = None \<or> par_kind p = VAR_POSITIONAL \<or> par_kind p = VAR_KEYWORD) \<longrightarrow>
     (\<exists>msg. get_creator astype creator dims dt = Inl (ValueError msg))) \<and>
   (\<not> (\<exists>p \<in> set (parameters creator).
       par_annotation p = None \<or> par_kind p = VAR_POSITIONAL \<or> par_kind p = VAR_KEYWORD) \<longrightarrow>
     (\<exists>cr. get_creator astype creator dims dt = Inr cr))"
proof (intro conjI impI)
  assume "\<exists>p \<in> set (parameters creator).
       par_annotation p = None \<or> par_kind p = VAR_POSITIONAL \<or> par_kind p = VAR_KEYWORD"
  then have "check_parameters (parameters creator) \<noteq> Inr ()"
    by (auto simp: check_parameters_ok)
  then obtain e where e: "check_parameters (parameters creator) = Inl e"
    by (cases "check_parameters (parameters creator)") auto
  then obtain msg where "e = ValueError msg" by (auto dest: check_parameters_error)
  with e show "\<exists>msg. get_creator astype creator dims dt = Inl (ValueError msg)"
    by (simp add: get_creator_def)
next
  assume "\<not> (\<exists>p \<in> set (parameters creator).
       par_annotation p = None \<or> par_kind p = VAR_POSITIONAL \<or> par_kind p = VAR_KEYWORD)"
  then have "check_parameters (parameters creator) = Inr ()"
    by (auto simp: check_parameters_ok)
  then show "\<exists>cr. get_creator astype creator dims dt = Inr cr"
    by (simp add: get_creator_def)
qed

theorem get_creator_checks_parameters_witness:
  "(\<exists>msg. get_creator no_cast example_untyped [''x''] None = Inl (ValueError msg)) \<and>
   (\<exists>cr. get_creator no_cast example_new [''x''] None = Inr cr)"
  using get_creator_checks_parameters [of example_untyped no_cast "[''x'']" None]
        get_creator_checks_parameters [of example_new no_cast "[''x'']" None]
  by (simp add: example_untyped_def example_new_def)

section \<open>Properties of to_dataarray\<close>

lemma lookup_sizes_length:
  "lookup_sizes sz dims = Inr ns \<Longrightarrow> length ns = length dims"
  by (induction dims arbitrary: ns) (auto split: option.splits sum.splits)

lemma lookup_sizes_present:
  "set dims \<subseteq> fst ` set sz \<Longrightarrow>
   lookup_sizes sz dims = Inr (map (\<lambda>d. the (map_of sz d)) dims)"
proof (induction dims)
  case Nil
  then show ?case by simp
next
  case (Cons d dims)
  then obtain n where "map_of sz d = Some n"
    by (cases "map_of sz d") (auto simp: map_of_eq_None_iff)
  with Cons show ?case by simp
qed

lemma lookup_sizes_absent:
  "\<not> set dims \<subseteq> fst ` set sz \<Longrightarrow>
   \<exists>d \<in> set dims. d \<notin> fst ` set sz \<and> lookup_sizes sz dims = Inl (KeyError d)"
proof (induction dims)
  case Nil
  then show ?case by simp
next
  case (Cons d dims)
  show ?case
  proof (cases "map_of sz d")
    case None
    then have "d \<notin> fst ` set sz" by (simp add: map_of_eq_None_iff)
    with None show ?thesis by (intro bexI [of _ d]) simp_all
  next
    case (Some n)
    then have "d \<in> fst ` set sz" by (metis map_of_eq_None_iff option.distinct(1))
    with Cons.prems have "\<not> set dims \<subseteq> fst ` set sz" by auto
    from Cons.IH [OF this] Some show ?thesis by auto
  qed
qed

lemma lookup_sizes_error: "lookup_sizes sz dims = Inl e \<Longrightarrow> is_KeyError e"
  by (induction dims arbitrary: e) (auto split: option.splits sum.splits)

lemma np_full_shape: "np_full shp value = Inr a \<Longrightarrow> shape a = shp"
  by (auto simp: np_full_def split: raw.splits if_splits)

lemma np_full_Scalar:
  "np_full shp (Scalar v) = Inr \<lparr>shape = shp, elems = replicate (prod_list shp) v\<rparr>"
  by (simp add: np_full_def)

lemma np_full_Array:
  "np_full shp (Array a) =
     (if broadcastable (shape a) shp
      then Inr \<lparr>shape = shp,
                elems = broadcast_elems shp (strip_leading_ones (length shp) (shape a)) (elems a)\<rparr>
      else Inl (ValueError ''could not broadcast input array''))"
  by (simp add: np_full_def)

lemma np_full_error: "np_full shp value = Inl e \<Longrightarrow> is_ValueError e"
  by (auto simp: np_full_def split: raw.splits if_splits)

lemma coords_setitem_error: "coords_setitem da name entry = Inl e \<Longrightarrow> is_ValueError e"
  by (auto simp: coords_setitem_def split: if_splits)

lemma coords_setitem_result:
  "coords_setitem da name entry = Inr da' \<Longrightarrow>
   da' = da\<lparr>coords := AList.update name entry (coords da)\<rparr>"
  by (auto simp: coords_setitem_def split: if_splits)

lemma set_coord_unfold:
  assumes "field_type fld = Some (DataArrayClass dims dt)"
  shows "set_coord astype da fld value =
     (case lookup_sizes (sizes da) dims of
        Inl e \<Rightarrow> Inl e
      | Inr shp \<Rightarrow>
          (case np_full shp value of
             Inl e \<Rightarrow> Inl e
           | Inr a \<Rightarrow>
               coords_setitem da (field_name fld)
                 (dims, \<lparr>var_dims = dims, var_dtype = dt,
                         var_data = \<lparr>shape = shape a, elems = map (cast astype dt) (elems a)\<rparr>\<rparr>)))"
  using assms
  by (auto simp: set_coord_def TypedArray_def split: sum.splits
           dest!: lookup_sizes_length np_full_shape)

lemma set_coord_update:
  "set_coord astype da fld value = Inr da' \<Longrightarrow>
   \<exists>entry. da' = da\<lparr>coords := AList.update (field_name fld) entry (coords da)\<rparr>"
  by (auto simp: set_coord_def split: option.splits ftype.splits sum.splits
           dest!: coords_setitem_result)

lemma set_coord_var: "set_coord astype da fld value = Inr da' \<Longrightarrow> var da' = var da"
  by (auto dest!: set_coord_update)

lemma set_coord_keys:
  "set_coord astype da fld value = Inr da' \<Longrightarrow>
   map fst (coords da') =
     (if field_name fld \<in> set (map fst (coords da)) then map fst (coords da)
      else map fst (coords da) @ [field_name fld])"
proof -
  assume "set_coord astype da fld value = Inr da'"
  then obtain entry where "coords da' = AList.update (field_name fld) entry (coords da)"
    by (auto dest!: set_coord_update)
  then show ?thesis by (simp only: update_keys)
qed


lemma set_coords_keys:
  assumes "set_coords astype i da flds = Inr da'"
    and "distinct (map field_name flds)"
    and "\<forall>f \<in> set flds. field_name f \<notin> set (map fst (coords da))"
  shows "map fst (coords da') = map fst (coords da) @ map field_name (coordinate_fields flds)"
  using assms
proof (induction flds arbitrary: da)
  case Nil
  then show ?case by (simp add: coordinate_fields_def)
next
  case (Cons fld flds)
  show ?case
  proof (cases "is_class (field_type fld) \<and> is_DataArray_subclass (field_type fld)")
    case False
    with Cons.prems have "set_coords astype i da flds = Inr da'"
      by (auto split: if_splits)
    from Cons.IH [OF this] Cons.prems False show ?thesis
      by (auto simp: coordinate_fields_def)
  next
    case True
    with Cons.prems obtain da1 where
      one: "set_coord astype da fld (getattr i (field_name fld)) = Inr da1"
      and rest: "set_coords astype i da1 flds = Inr da'"
      by (auto split: sum.splits)
    from set_coord_keys [OF one] Cons.prems
    have keys1: "map fst (coords da1) = map fst (coords da) @ [field_name fld]"
      by simp
    have "\<forall>f \<in> set flds. field_name f \<notin> set (map fst (coords da1))"
    proof
      fix f assume f: "f \<in> set flds"
      then have "field_name f \<in> field_name ` set flds" by (rule imageI)
      moreover from Cons.prems(2) have "field_name fld \<notin> field_name ` set flds" by simp
      ultimately have "field_name f \<noteq> field_name fld" by metis
      moreover from f Cons.prems(3) have "field_name f \<notin> set (map fst (coords da))" by simp
      ultimately show "field_name f \<notin> set (map fst (coords da1))"
        unfolding keys1 by simp
    qed
    from Cons.IH [OF rest _ this] Cons.prems(2) True show ?thesis
      by (simp add: keys1 coordinate_fields_def)
  qed
qed

lemma wrapper_no_coords:
  "wrapper astype creator dims dt args kw = Inr da \<Longrightarrow> coords da = []"
  by (auto simp: wrapper_def TypedArray_def Let_def split: sum.splits if_splits)

lemma get_creator_call:
  "get_creator astype creator dims dt = Inr cr \<Longrightarrow> call cr = wrapper astype creator dims dt"
  by (auto simp: get_creator_def copy_wraps_def split: sum.splits)

text \<open>
  Claim C3. For an instance of a class whose Creator comes from \<open>get_creator\<close>, when
  \<open>to_dataarray\<close> succeeds the coordinate keys of the result are exactly the names of the
  fields whose type is a subclass of \<open>DataArray\<close>, no fewer and no more, in the order
  the fields are declared.
\<close>

theorem coordinate_keys_are_coordinate_fields:
  assumes "get_creator astype creator dims dt = Inr (dataarray_creator (class_of i))"
    and "distinct (map field_name (dataclass_fields (class_of i)))"
    and "to_dataarray astype i = Inr da"
  shows "map fst (coords da) = map field_name (coordinate_fields (dataclass_fields (class_of i)))"
proof -
  from assms(3) obtain da0 where
    start: "call (dataarray_creator (class_of i)) [] (asdict i) = Inr da0"
    and loop: "set_coords astype i da0 (dataclass_fields (class_of i)) = Inr da"
    by (auto simp: to_dataarray_def split: sum.splits)
  from start have "coords da0 = []"
    using get_creator_call [OF assms(1)] by (simp add: wrapper_no_coords)
  with set_coords_keys [OF loop assms(2)] show ?thesis by simp
qed

lemma sizes_var: "var da' = var da \<Longrightarrow> sizes da' = sizes da"
  by (simp add: sizes_def)

lemma coordinate_field_iff:
  "is_class (field_type f) \<and> is_DataArray_subclass (field_type f) \<longleftrightarrow>
   (\<exists>cdims cdt. field_type f = Some (DataArrayClass cdims cdt))"
  by (cases "field_type f" rule: is_DataArray_subclass.cases) auto











lemma example_get_creator:
  "get_creator no_cast example_new [''x'', ''y''] None = Inr example_creator"
  by (simp add: get_creator_def example_new_def example_creator_def)

lemma example_creator_call:
  "call (dataarray_creator (class_of (example_inst cdims c1 other))) []
        (asdict (example_inst cdims c1 other)) = Inr example_primary"
  by (simp add: example_inst_def example_class_def example_creator_def copy_wraps_def
      wrapper_known_keys asdict_def example_new_def TypedArray_def cast_def example_primary_def)

lemma example_sizes: "sizes example_primary = [(''x'', 2), (''y'', 3)]"
  by (simp add: sizes_def example_primary_def)

lemma example_to_dataarray:
  "to_dataarray no_cast (example_inst cdims c1 other) =
     set_coord no_cast example_primary
       \<lparr>field_name = ''c1'', field_type = Some (DataArrayClass cdims None), field_default = None\<rparr>
       c1"
  unfolding to_dataarray_def example_creator_call
  by (simp add: example_inst_def example_class_def split: sum.splits)

lemma replicate_2: "replicate 2 x = [x, x]"
  by (simp add: numeral_2_eq_2)

lemma example_lookup_x: "lookup_sizes (sizes example_primary) [''x''] = Inr [2]"
  by (simp add: example_sizes)

lemma example_coords: "coords example_primary = []"
  by (simp add: example_primary_def)

lemma example_scalar:
  "to_dataarray no_cast (example_inst [''x''] (Scalar 5) other) =
     Inr (example_primary\<lparr>coords :=
       [(''c1'', [''x''], \<lparr>var_dims = [''x''], var_dtype = None,
                            var_data = \<lparr>shape = [2], elems = [5, 5]\<rparr>\<rparr>)]\<rparr>)"
  unfolding example_to_dataarray
  by (simp add: set_coord_unfold example_sizes example_coords np_full_def cast_def replicate_2
      coords_setitem_def)

lemma example_broadcast:
  "to_dataarray no_cast (example_inst [''x''] (Array \<lparr>shape = [1], elems = [7]\<rparr>) other) =
     Inr (example_primary\<lparr>coords :=
       [(''c1'', [''x''], \<lparr>var_dims = [''x''], var_dtype = None,
                            var_data = \<lparr>shape = [2], elems = [7, 7]\<rparr>\<rparr>)]\<rparr>)"
  unfolding example_to_dataarray
  by (simp add: set_coord_unfold example_sizes example_coords np_full_def cast_def
      broadcastable_def replicate_2 coords_setitem_def)

lemma example_mismatch:
  "to_dataarray no_cast (example_inst [''x''] (Array \<lparr>shape = [3], elems = [7, 8, 9]\<rparr>) other) =
     Inl (ValueError ''could not broadcast input array'')"
  unfolding example_to_dataarray
  by (simp add: set_coord_unfold example_sizes np_full_def broadcastable_def)

lemma example_unknown:
  "to_dataarray no_cast (example_inst [''z''] (Scalar 5) other) = Inl (KeyError ''z'')"
  unfolding example_to_dataarray
  by (simp add: set_coord_unfold example_sizes)

lemma example_leading_axis:
  "np_full [2] (Array \<lparr>shape = [1, 2], elems = [7, 8 :: int]\<rparr>) =
     Inr \<lparr>shape = [2], elems = [7, 8]\<rparr>"
  by (simp add: np_full_def broadcastable_def numeral_2_eq_2)

lemma unknown_dim_var:
  assumes "var da' = var da"
  shows "unknown_dim da' f = unknown_dim da f"
  unfolding unknown_dim_def sizes_var [OF assms] ..

lemma not_broadcastable_var:
  assumes "var da' = var da"
  shows "not_broadcastable da' f v = not_broadcastable da f v"
  unfolding not_broadcastable_def sizes_var [OF assms] ..

lemma set_coord_result:
  assumes "field_type f = Some (DataArrayClass cdims cdt)"
  shows "(unknown_dim da f \<longrightarrow>
            (\<exists>d. d \<notin> fst ` set (sizes da) \<and> set_coord astype da f v = Inl (KeyError d))) \<and>
         (not_broadcastable da f v \<longrightarrow> (\<exists>m. set_coord astype da f v = Inl (ValueError m)))"
proof (cases "set cdims \<subseteq> fst ` set (sizes da)")
  case False
  from lookup_sizes_absent [OF this] obtain d where
    "d \<notin> fst ` set (sizes da)" "lookup_sizes (sizes da) cdims = Inl (KeyError d)" by blast
  with assms False show ?thesis
    by (simp add: set_coord_unfold unknown_dim_def not_broadcastable_def)
next
  case True
  from lookup_sizes_present [OF this] obtain shp where
    shp: "lookup_sizes (sizes da) cdims = Inr shp" by blast
  show ?thesis
  proof (cases v)
    case (Scalar x)
    with assms True shp show ?thesis
      by (simp add: unknown_dim_def not_broadcastable_def)
  next
    case (Array a)
    with assms True shp show ?thesis
      by (simp add: set_coord_unfold unknown_dim_def not_broadcastable_def np_full_Array)
  qed
qed

lemma set_coord_error:
  assumes "field_type f = Some (DataArrayClass cdims cdt)"
    and "set_coord astype da f v = Inl e"
  shows "is_KeyError e \<or> is_ValueError e"
  using assms(2) unfolding set_coord_unfold [OF assms(1)]
  by (auto split: sum.splits
           dest: lookup_sizes_error np_full_error coords_setitem_error)

lemma set_coords_error:
  "set_coords astype i da flds = Inl e \<Longrightarrow> is_KeyError e \<or> is_ValueError e"
proof (induction flds arbitrary: da)
  case Nil
  then show ?case by simp
next
  case (Cons g flds)
  show ?case
  proof (cases "is_class (field_type g) \<and> is_DataArray_subclass (field_type g)")
    case False
    with Cons.prems have "set_coords astype i da flds = Inl e"
      by (auto split: if_splits)
    then show ?thesis by (rule Cons.IH)
  next
    case True
    then obtain cdims cdt where ty: "field_type g = Some (DataArrayClass cdims cdt)"
      by (auto simp: coordinate_field_iff)
    show ?thesis
    proof (cases "set_coord astype da g (getattr i (field_name g))")
      case (Inl e')
      with Cons.prems True have "e' = e" by simp
      with set_coord_error [OF ty Inl] show ?thesis by simp
    next
      case (Inr da1)
      with Cons.prems True have "set_coords astype i da1 flds = Inl e" by simp
      then show ?thesis by (rule Cons.IH)
    qed
  qed
qed

lemma set_coords_good:
  "set_coords astype i da flds = Inr da' \<Longrightarrow> f \<in> set (coordinate_fields flds) \<Longrightarrow>
   \<not> unknown_dim da f \<and> \<not> not_broadcastable da f (getattr i (field_name f))"
proof (induction flds arbitrary: da)
  case Nil
  then show ?case by (simp add: coordinate_fields_def)
next
  case (Cons g flds)
  show ?case
  proof (cases "is_class (field_type g) \<and> is_DataArray_subclass (field_type g)")
    case False
    with Cons.prems have "set_coords astype i da flds = Inr da'"
      and "f \<in> set (coordinate_fields flds)"
      by (auto simp: coordinate_fields_def split: if_splits)
    then show ?thesis by (rule Cons.IH)
  next
    case True
    then obtain cdims cdt where ty: "field_type g = Some (DataArrayClass cdims cdt)"
      by (auto simp: coordinate_field_iff)
    from Cons.prems(1) True obtain da1 where
      one: "set_coord astype da g (getattr i (field_name g)) = Inr da1"
      and rest: "set_coords astype i da1 flds = Inr da'"
      by (auto split: sum.splits)
    from set_coord_var [OF one] have v: "var da1 = var da" .
    show ?thesis
    proof (cases "f = g")
      case True
      from set_coord_result [OF ty, where da = da and v = "getattr i (field_name g)"
          and astype = astype] one
      show ?thesis unfolding True by auto
    next
      case False
      with Cons.prems(2) have "f \<in> set (coordinate_fields flds)"
        by (auto simp: coordinate_fields_def split: if_splits)
      from Cons.IH [OF rest this] show ?thesis
        unfolding unknown_dim_var [OF v] not_broadcastable_var [OF v] .
    qed
  qed
qed

lemma shape_stage_ok:
  assumes "field_type f = Some (DataArrayClass cdims cdt)"
    and "\<not> unknown_dim da f"
    and "\<not> not_broadcastable da f v"
  shows "\<exists>shp a. lookup_sizes (sizes da) cdims = Inr shp \<and> np_full shp v = Inr a"
proof -
  from assms(1,2) have "set cdims \<subseteq> fst ` set (sizes da)"
    by (simp add: unknown_dim_def)
  from lookup_sizes_present [OF this] obtain shp where
    shp: "lookup_sizes (sizes da) cdims = Inr shp" by blast
  show ?thesis
  proof (cases v)
    case (Scalar x)
    with shp show ?thesis by (simp add: np_full_Scalar)
  next
    case (Array a)
    with assms(1,3) shp have "broadcastable (shape a) shp"
      by (simp add: not_broadcastable_def)
    with shp Array show ?thesis by (simp add: np_full_Array)
  qed
qed

text \<open>
  Claim C5, amended. Once the Creator has returned the primary array: for a coordinate
  field that names a dimension which is not an axis of the primary array, \<open>set_coord\<close>
  raises \<open>KeyError\<close> with such a name, and for one that holds an array which cannot be
  broadcast to the resolved shape it raises \<open>ValueError\<close>; if there is such a field,
  \<open>to_dataarray\<close> fails, with a \<open>KeyError\<close> or a \<open>ValueError\<close>. The shape of the array
  need not be the resolved shape: it is enough that it can be broadcast to it. For any
  other coordinate field the lookup of the sizes and \<open>np.full\<close> return; whether the
  backend then stores the coordinate is not part of the statement.
\<close>

theorem coordinate_shape_errors:
  assumes "call (dataarray_creator (class_of i)) [] (asdict i) = Inr da0"
  shows "(\<forall>f \<in> set (coordinate_fields (dataclass_fields (class_of i))).
            (unknown_dim da0 f \<longrightarrow>
               (\<exists>d. d \<notin> fst ` set (sizes da0) \<and>
                    set_coord astype da0 f (getattr i (field_name f)) = Inl (KeyError d))) \<and>
            (not_broadcastable da0 f (getattr i (field_name f)) \<longrightarrow>
               (\<exists>m. set_coord astype da0 f (getattr i (field_name f)) = Inl (ValueError m))) \<and>
            (\<not> unknown_dim da0 f \<and> \<not> not_broadcastable da0 f (getattr i (field_name f)) \<longrightarrow>
               (\<exists>cdims cdt shp a. field_type f = Some (DataArrayClass cdims cdt) \<and>
                  lookup_sizes (sizes da0) cdims = Inr shp \<and>
                  np_full shp (getattr i (field_name f)) = Inr a))) \<and>
         ((\<exists>f \<in> set (coordinate_fields (dataclass_fields (class_of i))).
             unknown_dim da0 f \<or> not_broadcastable da0 f (getattr i (field_name f))) \<longrightarrow>
          (\<exists>e. to_dataarray astype i = Inl e \<and> (is_KeyError e \<or> is_ValueError e)))"
proof (intro conjI ballI impI)
  fix f assume "f \<in> set (coordinate_fields (dataclass_fields (class_of i)))"
  then obtain cdims cdt where ty: "field_type f = Some (DataArrayClass cdims cdt)"
    by (auto simp: coordinate_fields_def coordinate_field_iff)
  note res = set_coord_result [OF ty, where da = da0 and v = "getattr i (field_name f)"
      and astype = astype]
  {
    assume "unknown_dim da0 f"
    with res show "\<exists>d. d \<notin> fst ` set (sizes da0) \<and>
                    set_coord astype da0 f (getattr i (field_name f)) = Inl (KeyError d)"
      by simp
  next
    assume "not_broadcastable da0 f (getattr i (field_name f))"
    with res show "\<exists>m. set_coord astype da0 f (getattr i (field_name f)) = Inl (ValueError m)"
      by simp
  next
    assume "\<not> unknown_dim da0 f \<and> \<not> not_broadcastable da0 f (getattr i (field_name f))"
    with shape_stage_ok [OF ty, of da0 "getattr i (field_name f)"] ty
    show "\<exists>cdims cdt shp a. field_type f = Some (DataArrayClass cdims cdt) \<and>
                  lookup_sizes (sizes da0) cdims = Inr shp \<and>
                  np_full shp (getattr i (field_name f)) = Inr a"
      by blast
  }
next
  have run: "to_dataarray astype i = set_coords astype i da0 (dataclass_fields (class_of i))"
    using assms by (simp add: to_dataarray_def)
  assume bad: "\<exists>f \<in> set (coordinate_fields (dataclass_fields (class_of i))).
             unknown_dim da0 f \<or> not_broadcastable da0 f (getattr i (field_name f))"
  show "\<exists>e. to_dataarray astype i = Inl e \<and> (is_KeyError e \<or> is_ValueError e)"
  proof (cases "to_dataarray astype i")
    case (Inl e)
    then have "is_KeyError e \<or> is_ValueError e"
      unfolding run by (rule set_coords_error)
    with Inl show ?thesis by simp
  next
    case (Inr da)
    with bad set_coords_good [of astype i da0 "dataclass_fields (class_of i)" da]
    show ?thesis unfolding run by blast
  qed
qed

lemma example_fields:
  "dataclass_fields (class_of (example_inst cdims c1 other)) =
     [\<lparr>field_name = ''data'', field_type = Some OtherClass, field_default = None\<rparr>,
      \<lparr>field_name = ''c1'', field_type = Some (DataArrayClass cdims None),
       field_default = None\<rparr>]"
  by (simp add: example_inst_def example_class_def)

lemma example_class_creator:
  "dataarray_creator (class_of (example_inst cdims c1 other)) = example_creator"
  by (simp add: example_inst_def example_class_def)

theorem coordinate_keys_are_coordinate_fields_witness:
  "get_creator no_cast example_new [''x'', ''y''] None =
     Inr (dataarray_creator (class_of (example_inst [''x''] (Scalar 5) (Scalar 0)))) \<and>
   distinct (map field_name (dataclass_fields (class_of (example_inst [''x''] (Scalar 5) (Scalar 0))))) \<and>
   (\<exists>da. to_dataarray no_cast (example_inst [''x''] (Scalar 5) (Scalar 0)) = Inr da \<and>
         map fst (coords da) = [''c1''])"
proof -
  let ?i = "example_inst [''x''] (Scalar 5) (Scalar 0)"
  let ?da = "example_primary\<lparr>coords :=
       [(''c1'', [''x''], \<lparr>var_dims = [''x''], var_dtype = None,
                            var_data = \<lparr>shape = [2], elems = [5, 5]\<rparr>\<rparr>)]\<rparr>"
  have h1: "get_creator no_cast example_new [''x'', ''y''] None =
     Inr (dataarray_creator (class_of ?i))"
    by (simp add: example_class_creator example_get_creator)
  have h2: "distinct (map field_name (dataclass_fields (class_of ?i)))"
    by (simp add: example_fields)
  have h3: "to_dataarray no_cast ?i = Inr ?da" by (rule example_scalar)
  from coordinate_keys_are_coordinate_fields [OF h1 h2 h3]
  have "map fst (coords ?da) = [''c1'']"
    by (simp add: example_fields coordinate_fields_def)
  with h3 have "\<exists>da. to_dataarray no_cast ?i = Inr da \<and> map fst (coords da) = [''c1'']"
    by (intro exI [of _ ?da] conjI)
  with h1 h2 show ?thesis by (intro conjI)
qed


lemma example_not_broadcastable:
  "not_broadcastable example_primary
     \<lparr>field_name = ''c1'', field_type = Some (DataArrayClass [''x''] None), field_default = None\<rparr>
     (Array \<lparr>shape = [3], elems = [7, 8, 9]\<rparr>)"
  by (simp add: not_broadcastable_def example_sizes broadcastable_def)

theorem coordinate_shape_errors_witness:
  "call (dataarray_creator (class_of (example_inst [''x''] (Array \<lparr>shape = [3], elems = [7, 8, 9]\<rparr>) (Scalar 0))))
        [] (asdict (example_inst [''x''] (Array \<lparr>shape = [3], elems = [7, 8, 9]\<rparr>) (Scalar 0))) =
     Inr example_primary \<and>
   (\<exists>f \<in> set (coordinate_fields (dataclass_fields (class_of
              (example_inst [''x''] (Array \<lparr>shape = [3], elems = [7, 8, 9]\<rparr>) (Scalar 0))))).
      not_broadcastable example_primary f
        (getattr (example_inst [''x''] (Array \<lparr>shape = [3], elems = [7, 8, 9]\<rparr>) (Scalar 0))
           (field_name f))) \<and>
   (\<exists>e. to_dataarray no_cast (example_inst [''x''] (Array \<lparr>shape = [3], elems = [7, 8, 9]\<rparr>) (Scalar 0)) =
           Inl e \<and> (is_KeyError e \<or> is_ValueError e))"
proof -
  let ?bad = "example_inst [''x''] (Array \<lparr>shape = [3], elems = [7, 8, 9]\<rparr>) (Scalar 0)"
  let ?c1 = "\<lparr>field_name = ''c1'', field_type = Some (DataArrayClass [''x''] None),
              field_default = None\<rparr> :: (nat, int) field"
  have c: "call (dataarray_creator (class_of ?bad)) [] (asdict ?bad) = Inr example_primary"
    by (rule example_creator_call)
  have m: "?c1 \<in> set (coordinate_fields (dataclass_fields (class_of ?bad)))"
    by (simp add: example_fields coordinate_fields_def)
  have v: "getattr ?bad (field_name ?c1) = Array \<lparr>shape = [3], elems = [7, 8, 9]\<rparr>"
    by (simp add: example_inst_def)
  have n: "not_broadcastable example_primary ?c1 (getattr ?bad (field_name ?c1))"
    unfolding v by (rule example_not_broadcastable)
  from m n have 1: "\<exists>f \<in> set (coordinate_fields (dataclass_fields (class_of ?bad))).
      not_broadcastable example_primary f (getattr ?bad (field_name f))"
    by (rule bexI [rotated])
  then have "\<exists>f \<in> set (coordinate_fields (dataclass_fields (class_of ?bad))).
      unknown_dim example_primary f \<or>
      not_broadcastable example_primary f (getattr ?bad (field_name f))"
    by blast
  with coordinate_shape_errors [where astype = no_cast, OF c, THEN conjunct2]
  have 2: "\<exists>e. to_dataarray no_cast ?bad = Inl e \<and> (is_KeyError e \<or> is_ValueError e)"
    by (rule mp)
  from c 1 2 show ?thesis by (intro conjI)
qed



text \<open>
  Claim C5 as stated fails. With primary sizes \<open>x = 2, y = 3\<close>, a coordinate with dims
  \<open>("x",)\<close> given an array of shape \<open>(1,)\<close>, which is not the resolved shape \<open>(2,)\<close>, is
  accepted and broadcast. An array of shape \<open>(3,)\<close> is refused with a \<open>ValueError\<close>, the
  exception type \<open>get_creator\<close> raises as well, and an unknown dimension with a
  \<open>KeyError\<close>.
\<close>

theorem broadcastable_mismatch_counterexample:
  "lookup_sizes (sizes example_primary) [''x''] = Inr [2] \<and>
   shape \<lparr>shape = [1], elems = [7 :: int]\<rparr> \<noteq> [2] \<and>
   to_dataarray no_cast (example_inst [''x''] (Array \<lparr>shape = [1], elems = [7]\<rparr>) (Scalar 0)) =
     Inr (example_primary\<lparr>coords :=
       [(''c1'', [''x''], \<lparr>var_dims = [''x''], var_dtype = None,
                            var_data = \<lparr>shape = [2], elems = [7, 7]\<rparr>\<rparr>)]\<rparr>) \<and>
   to_dataarray no_cast (example_inst [''x''] (Array \<lparr>shape = [3], elems = [7, 8, 9]\<rparr>) (Scalar 0)) =
     Inl (ValueError ''could not broadcast input array'') \<and>
   get_creator no_cast example_untyped [''x'', ''y''] None =
     Inl (ValueError ''Type hint must be specified for all args.'') \<and>
   to_dataarray no_cast (example_inst [''z''] (Scalar 5) (Scalar 0)) = Inl (KeyError ''z'')"
proof (intro conjI)
  show "get_creator no_cast example_untyped [''x'', ''y''] None =
     Inl (ValueError ''Type hint must be specified for all args.'')"
    by (simp add: get_creator_def example_untyped_def)
  show "shape \<lparr>shape = [1], elems = [7 :: int]\<rparr> \<noteq> [2]" by simp
qed (rule example_lookup_x example_broadcast example_mismatch example_unknown)+

text \<open>
  The two conditions are not the only ways a coordinate is refused: a coordinate named
  \<open>x\<close> with dims \<open>("x", "y")\<close> and a scalar value names known dimensions only and has
  nothing to broadcast, and the backend refuses it.
\<close>

lemma example_dim_creator_call:
  "call (dataarray_creator (class_of example_dim_inst)) [] (asdict example_dim_inst) =
     Inr example_primary"
  by (simp add: example_dim_inst_def example_creator_def copy_wraps_def
      wrapper_known_keys asdict_def example_new_def TypedArray_def cast_def example_primary_def)

lemma example_dim_to_dataarray:
  "to_dataarray no_cast example_dim_inst =
     set_coord no_cast example_primary
       \<lparr>field_name = ''x'', field_type = Some (DataArrayClass [''x'', ''y''] None),
        field_default = None\<rparr>
       (Scalar 5)"
  unfolding to_dataarray_def example_dim_creator_call
  by (simp add: example_dim_inst_def split: sum.splits)

lemma example_refused:
  "\<not> unknown_dim example_primary
       \<lparr>field_name = ''x'', field_type = Some (DataArrayClass [''x'', ''y''] None),
        field_default = None\<rparr> \<and>
   \<not> not_broadcastable example_primary
       \<lparr>field_name = ''x'', field_type = Some (DataArrayClass [''x'', ''y''] None),
        field_default = None\<rparr> (Scalar 5) \<and>
   to_dataarray no_cast example_dim_inst = Inl (MissingDimensionsError ''x'')"
  unfolding example_dim_to_dataarray
  by (simp add: unknown_dim_def not_broadcastable_def example_sizes set_coord_unfold
      np_full_def coords_setitem_def)

section \<open>Properties of dataarrayclass\<close>

lemma dict_merge_keys: "fst ` set (dict_merge a b) = fst ` set a \<union> fst ` set b"
  unfolding dict_merge_def
proof (induction b arbitrary: a)
  case Nil
  then show ?case by simp
next
  case (Cons x b)
  obtain k v where x: "x = (k, v)" by (cases x)
  show ?case by (simp add: x Cons.IH dom_update)
qed

lemma split_annotations_keys:
  "split_annotations pars (l, t) = (l', t') \<Longrightarrow>
   fst ` set l' \<union> fst ` set t' = fst ` set l \<union> fst ` set t \<union> par_name ` set pars"
proof (induction pars arbitrary: l t)
  case Nil
  then show ?case by simp
next
  case (Cons p pars)
  show ?case
  proof (cases "par_kind p = KEYWORD_ONLY")
    case True
    with Cons.prems have
      "split_annotations pars (l, AList.update (par_name p) (par_annotation p) t) = (l', t')"
      by simp
    from Cons.IH [OF this] show ?thesis by (simp add: dom_update)
  next
    case False
    with Cons.prems have
      "split_annotations pars (AList.update (par_name p) (par_annotation p) l, t) = (l', t')"
      by simp
    from Cons.IH [OF this] show ?thesis by (simp add: dom_update)
  qed
qed

lemma update_annotations_keys:
  "par_name ` set (parameters based_on) \<subseteq> fst ` set (annotations (update_annotations cls based_on))"
proof -
  obtain l t where s: "split_annotations (parameters based_on) ([], []) = (l, t)"
    by (cases "split_annotations (parameters based_on) ([], [])")
  from split_annotations_keys [OF s] show ?thesis
    by (auto simp: update_annotations_def s dict_merge_keys)
qed

lemma update_annotations_attributes:
  "attributes (update_annotations cls based_on) = attributes cls"
  by (simp add: update_annotations_def split: prod.splits)

lemma default_is_empty_Some: "default_is_empty (Some x) = Inr b \<Longrightarrow> \<not> b"
  by (cases x) (auto split: if_splits)

lemma set_defaults_step:
  assumes "set_defaults (q # pars) cls = Inr cls'"
  shows "\<exists>cls1. set_defaults pars cls1 = Inr cls' \<and>
           cls1 = (case par_default q of
                     None \<Rightarrow> cls
                   | Some d \<Rightarrow> cls\<lparr>attributes := AList.update (par_name q) d (attributes cls)\<rparr>)"
  using assms
  by (auto split: sum.splits if_splits option.splits dest: default_is_empty_Some)

lemma set_defaults_annotations:
  "set_defaults pars cls = Inr cls' \<Longrightarrow> annotations cls' = annotations cls"
proof (induction pars arbitrary: cls)
  case Nil
  then show ?case by simp
next
  case (Cons q pars)
  from set_defaults_step [OF Cons.prems] obtain cls1 where
    "set_defaults pars cls1 = Inr cls'" "annotations cls1 = annotations cls"
    by (auto split: option.splits)
  with Cons.IH show ?case by simp
qed

lemma set_defaults_other:
  "set_defaults pars cls = Inr cls' \<Longrightarrow> n \<notin> par_name ` set pars \<Longrightarrow>
   map_of (attributes cls') n = map_of (attributes cls) n"
proof (induction pars arbitrary: cls)
  case Nil
  then show ?case by simp
next
  case (Cons q pars)
  from Cons.prems(2) have n: "n \<noteq> par_name q" "n \<notin> par_name ` set pars" by auto
  from set_defaults_step [OF Cons.prems(1)] n(1) obtain cls1 where
    "set_defaults pars cls1 = Inr cls'" "map_of (attributes cls1) n = map_of (attributes cls) n"
    by (auto simp: update_conv' split: option.splits)
  with Cons.IH n(2) show ?case by simp
qed

lemma set_defaults_default:
  "set_defaults pars cls = Inr cls' \<Longrightarrow> distinct (map par_name pars) \<Longrightarrow>
   p \<in> set pars \<Longrightarrow> par_default p = Some d \<Longrightarrow>
   map_of (attributes cls') (par_name p) = Some d"
proof (induction pars arbitrary: cls)
  case Nil
  then show ?case by simp
next
  case (Cons q pars)
  from set_defaults_step [OF Cons.prems(1)] obtain cls1 where
    rest: "set_defaults pars cls1 = Inr cls'"
    and cls1: "cls1 = (case par_default q of
                     None \<Rightarrow> cls
                   | Some d \<Rightarrow> cls\<lparr>attributes := AList.update (par_name q) d (attributes cls)\<rparr>)"
    by blast
  show ?case
  proof (cases "p = q")
    case True
    from Cons.prems(2) have "par_name q \<notin> par_name ` set pars" by simp
    from set_defaults_other [OF rest this] True Cons.prems(4) cls1 show ?thesis
      by (simp add: update_conv')
  next
    case False
    with Cons.prems have "distinct (map par_name pars)" "p \<in> set pars" by simp_all
    from Cons.IH [OF rest this Cons.prems(4)] show ?thesis .
  qed
qed

lemma make_fields_key:
  "n \<in> fst ` set (annotations cls) \<Longrightarrow>
   \<exists>f \<in> set (make_fields cls). field_name f = n \<and> field_default f = map_of (attributes cls) n"
  by (force simp: make_fields_def)

lemma get_creator_parameters:
  "get_creator astype creator dims dt = Inr cr \<Longrightarrow> parameters cr = parameters creator"
  by (auto simp: get_creator_def copy_wraps_def split: sum.splits)

text \<open>
  Claim C7. The Creator that \<open>get_creator\<close> returns has the parameter names and the
  default values of the base callable, and in the class \<open>dataarrayclass\<close> builds on it
  every parameter is a field, whose default is the parameter's default when the parameter
  has one. Parameter names of a signature are distinct.
\<close>

theorem creator_defaults_become_field_defaults:
  assumes "dataarrayclass astype dims dt creator cls = Inr C"
    and "distinct (map par_name (parameters creator))"
  shows "map par_name (parameters (dataarray_creator C)) = map par_name (parameters creator) \<and>
         map par_default (parameters (dataarray_creator C)) = map par_default (parameters creator) \<and>
         (\<forall>p \<in> set (parameters creator).
            \<exists>f \<in> set (dataclass_fields C).
              field_name f = par_name p \<and>
              (\<forall>d. par_default p = Some d \<longrightarrow> field_default f = Some d))"
proof -
  from assms(1) obtain cr cls' where
    cr: "get_creator astype creator dims dt = Inr cr"
    and upd: "update_defaults (update_annotations cls cr) cr = Inr cls'"
    and flds: "dataclass cls' = Inr (dataclass_fields C)"
    and C: "dataarray_creator C = cr"
    by (auto simp: dataarrayclass_def split: sum.splits)
  have pars: "parameters cr = parameters creator"
    using cr by (rule get_creator_parameters)
  from upd have set: "set_defaults (parameters creator) (update_annotations cls cr) = Inr cls'"
    by (simp add: update_defaults_def pars)
  from flds have made: "dataclass_fields C = make_fields cls'"
    by (auto simp: dataclass_def split: if_splits)
  have "\<exists>f \<in> set (dataclass_fields C).
              field_name f = par_name p \<and>
              (\<forall>d. par_default p = Some d \<longrightarrow> field_default f = Some d)"
    if p: "p \<in> set (parameters creator)" for p
  proof -
    have "par_name p \<in> fst ` set (annotations cls')"
      using update_annotations_keys [of cr cls] p
      by (auto simp: set_defaults_annotations [OF set] pars)
    from make_fields_key [OF this] obtain f where
      f: "f \<in> set (make_fields cls')" "field_name f = par_name p"
      "field_default f = map_of (attributes cls') (par_name p)"
      by blast
    have "field_default f = Some d" if "par_default p = Some d" for d
      using set_defaults_default [OF set assms(2) p that] f(3) by simp
    with f(1,2) show ?thesis unfolding made by blast
  qed
  with C pars show ?thesis by simp
qed

lemma example_dataarrayclass:
  "dataarrayclass no_cast [''x'', ''y''] None example_named example_pyclass =
     Inr \<lparr>dataclass_fields =
            [\<lparr>field_name = ''data'', field_type = Some OtherClass, field_default = None\<rparr>,
             \<lparr>field_name = ''c1'', field_type = Some (DataArrayClass [''x''] None),
              field_default = Some (Scalar 1)\<rparr>,
             \<lparr>field_name = ''name'', field_type = Some OtherClass,
              field_default = Some (Scalar 0)\<rparr>],
          dataarray_creator =
            copy_wraps example_named (wrapper no_cast example_named [''x'', ''y''] None)\<rparr>"
  by (simp add: dataarrayclass_def get_creator_def example_named_def example_pyclass_def
      copy_wraps_def update_annotations_def update_defaults_def dict_merge_def
      dataclass_def make_fields_def)

lemma example_array_default_refused:
  "dataarrayclass no_cast [''x'', ''y''] None example_array_default example_pyclass =
     Inl (ValueError ''The truth value of an array with more than one element is ambiguous'')"
  by (simp add: dataarrayclass_def get_creator_def example_array_default_def copy_wraps_def
      update_defaults_def)

theorem creator_defaults_become_field_defaults_witness:
  "\<exists>C. dataarrayclass no_cast [''x'', ''y''] None example_named example_pyclass = Inr C \<and>
        distinct (map par_name (parameters example_named)) \<and>
        map par_name (parameters (dataarray_creator C)) = [''data'', ''name''] \<and>
        map par_default (parameters (dataarray_creator C)) = [None, Some (Scalar 0)] \<and>
        map field_name (dataclass_fields C) = [''data'', ''c1'', ''name''] \<and>
        map field_default (dataclass_fields C) = [None, Some (Scalar 1), Some (Scalar 0)]"
proof -
  let ?C = "\<lparr>dataclass_fields =
            [\<lparr>field_name = ''data'', field_type = Some OtherClass, field_default = None\<rparr>,
             \<lparr>field_name = ''c1'', field_type = Some (DataArrayClass [''x''] None),
              field_default = Some (Scalar 1)\<rparr>,
             \<lparr>field_name = ''name'', field_type = Some OtherClass,
              field_default = Some (Scalar 0)\<rparr>],
          dataarray_creator =
            copy_wraps example_named (wrapper no_cast example_named [''x'', ''y''] None)\<rparr>"
  have h1: "dataarrayclass no_cast [''x'', ''y''] None example_named example_pyclass = Inr ?C"
    by (rule example_dataarrayclass)
  have h2: "distinct (map par_name (parameters example_named))"
    by (simp add: example_named_def)
  from creator_defaults_become_field_defaults [OF h1 h2]
  have "map par_name (parameters (dataarray_creator ?C)) = [''data'', ''name'']"
    and "map par_default (parameters (dataarray_creator ?C)) = [None, Some (Scalar 0)]"
    by (simp_all add: example_named_def)
  moreover have "map field_name (dataclass_fields ?C) = [''data'', ''c1'', ''name'']"
    and "map field_default (dataclass_fields ?C) = [None, Some (Scalar 1), Some (Scalar 0)]"
    by simp_all
  ultimately show ?thesis using h1 h2 by (intro exI [of _ ?C] conjI)
qed

section \<open>Properties of classify\<close>

text \<open>
  Claim C6. \<open>classify\<close> fails with ConfigurationError on every list whose first entry is
  a Coordinate, and designates the first entry the primary data field on every list whose
  first entry is not.
\<close>

theorem classify_first_field:
  "(is_Coordinate (fd_declared_type f) \<longrightarrow>
      (\<exists>msg. classify (f # fs) = Inl (ConfigurationError msg))) \<and>
   (\<not> is_Coordinate (fd_declared_type f) \<longrightarrow>
      (\<exists>cs ps. classify (f # fs) = Inr (f, cs, ps)))"
  by simp

theorem classify_first_field_witness:
  "(\<exists>msg. classify [example_fd_coord, example_fd_data] = Inl (ConfigurationError msg)) \<and>
   (\<exists>cs ps. classify [example_fd_data, example_fd_coord] = Inr (example_fd_data, cs, ps))"
  using classify_first_field [of example_fd_coord "[example_fd_data]"]
        classify_first_field [of example_fd_data "[example_fd_coord]"]
  by (simp add: example_fd_coord_def example_fd_data_def)

section \<open>Properties of asdataarray\<close>

text \<open>
  Claim C9. When the instance has the attribute \<open>__dataarray_factory__\<close>,
  \<open>asdataarray\<close> converts with it and the result does not depend on the factory passed
  as argument; the argument is used only when the instance has no such attribute.
\<close>

theorem asdataarray_uses_instance_factory:
  "(\<forall>g. obj_dataarray_factory i = Some g \<longrightarrow>
      asdataarray conv i f = conv i g \<and> asdataarray conv i f' = asdataarray conv i f) \<and>
   (obj_dataarray_factory i = None \<longrightarrow> asdataarray conv i f = conv i f)"
  by (simp add: asdataarray_def)

theorem asdataarray_uses_instance_factory_witness:
  "asdataarray example_conversion
     \<lparr>obj_dataarray_factory = Some ''Custom'',
      obj_values = [(''data'', Array \<lparr>shape = [2], elems = [1, 2]\<rparr>)]\<rparr> ''xr.DataArray'' =
     Inr (''Custom'', \<lparr>shape = [2], elems = [1, 2]\<rparr>) \<and>
   asdataarray example_conversion
     \<lparr>obj_dataarray_factory = None,
      obj_values = [(''data'', Array \<lparr>shape = [2], elems = [1, 2]\<rparr>)]\<rparr> ''xr.DataArray'' =
     Inr (''xr.DataArray'', \<lparr>shape = [2], elems = [1, 2]\<rparr>)"
  using asdataarray_uses_instance_factory [of
          "\<lparr>obj_dataarray_factory = Some ''Custom'',
            obj_values = [(''data'', Array \<lparr>shape = [2], elems = [1, 2]\<rparr>)]\<rparr>"
          example_conversion "''xr.DataArray''" "''xr.DataArray''"]
        asdataarray_uses_instance_factory [of
          "\<lparr>obj_dataarray_factory = None,
            obj_values = [(''data'', Array \<lparr>shape = [2], elems = [1, 2]\<rparr>)]\<rparr>"
          example_conversion "''xr.DataArray''" "''xr.DataArray''"]
  by (simp add: example_conversion_def)

end
